theory Spec2Isabelle
  imports Main
begin

section \<open>Values at the HTTP and SQL boundaries\<close>

text \<open>
  A property destructured from \<open>req.body\<close>: missing (JavaScript \<open>undefined\<close>), JSON
  \<open>null\<close>, or a value. Identifiers are integers (the route parameter and multipart
  fields are taken after SQLite's integer affinity), texts are strings.
\<close>

datatype 'a field = Absent | Null | Given 'a

text \<open>
  What the server code relies on without defining it: whether the SQLite driver binds
  \<open>undefined\<close> as NULL or throws a TypeError, whether the \<open>FOREIGN KEY\<close> clauses of
  the schema are enforced, and the two bcryptjs functions. Every handler takes these as
  a parameter.
\<close>

record env =
  undefined_as_null :: bool
  foreign_keys :: bool
  hashSync :: "string \<Rightarrow> string"
  compareSync :: "string \<Rightarrow> string \<Rightarrow> bool"

text \<open>JSON leaves of a response; an object is its key/value list in column order.\<close>

datatype jsval = JNull | JNum int | JStr string

type_synonym obj = "(string \<times> jsval) list"

definition jnum :: "int option \<Rightarrow> jsval" where
  "jnum v = (case v of None \<Rightarrow> JNull | Some n \<Rightarrow> JNum n)"

definition jstr :: "string option \<Rightarrow> jsval" where
  "jstr v = (case v of None \<Rightarrow> JNull | Some s \<Rightarrow> JStr s)"

text \<open>\<open>JSON.stringify\<close> drops a property whose value is \<open>undefined\<close>.\<close>

definition jfield :: "string \<Rightarrow> string field \<Rightarrow> obj" where
  "jfield k f = (case f of Absent \<Rightarrow> [] | Null \<Rightarrow> [(k, JNull)] | Given s \<Rightarrow> [(k, JStr s)])"

definition column :: "string option \<Rightarrow> string field" where
  "column v = (case v of None \<Rightarrow> Null | Some s \<Rightarrow> Given s)"

text \<open>A column list in a \<open>SELECT\<close>: the named columns of the row, in the order given.\<close>

definition select :: "string list \<Rightarrow> obj \<Rightarrow> obj" where
  "select cols row = map (\<lambda>c. (c, case map_of row c of None \<Rightarrow> JNull | Some v \<Rightarrow> v)) cols"

text \<open>Binding one statement parameter: \<open>None\<close> is the driver's TypeError.\<close>

definition bindv :: "env \<Rightarrow> 'a field \<Rightarrow> 'a option option" where
  "bindv e f =
     (case f of
        Absent \<Rightarrow> (if undefined_as_null e then Some None else None)
      | Null \<Rightarrow> Some None
      | Given v \<Rightarrow> Some (Some v))"

text \<open>SQL \<open>=\<close>: a comparison with NULL is never true.\<close>

definition sql_eq :: "'a option \<Rightarrow> 'a option \<Rightarrow> bool" where
  "sql_eq a b = (case a of None \<Rightarrow> False | Some x \<Rightarrow> (case b of None \<Rightarrow> False | Some y \<Rightarrow> x = y))"

text \<open>A foreign key on insert: a NULL child key passes, another needs its parent row.\<close>

definition references :: "env \<Rightarrow> int list \<Rightarrow> int option \<Rightarrow> bool" where
  "references e parents k =
     (if foreign_keys e then (case k of None \<Rightarrow> True | Some i \<Rightarrow> i \<in> set parents) else True)"

text \<open>
  \<open>INTEGER PRIMARY KEY AUTOINCREMENT\<close>: one more than the largest id so far (no route
  deletes a row or inserts an explicit id).
\<close>

definition next_id :: "int list \<Rightarrow> int" where
  "next_id ids = foldr max ids 0 + 1"

section \<open>The schema\<close>

record users_row =
  u_id :: int
  u_email :: "string option"
  u_password :: string
  u_name :: "string option"
  u_role :: string
  u_affiliation :: "string option"
  u_bio :: "string option"
  u_profile_picture :: "string option"

record conferences_row =
  c_id :: int
  c_title :: "string option"
  c_description :: "string option"
  c_date :: "string option"
  c_location :: "string option"
  c_status :: "string option"

record submissions_row =
  s_id :: int
  s_conference_id :: "int option"
  s_user_id :: "int option"
  s_title :: "string option"
  s_abstract :: "string option"
  s_file_path :: "string option"
  s_status :: "string option"

record reviews_row =
  r_id :: int
  r_submission_id :: "int option"
  r_reviewer_id :: "int option"
  r_comments :: "string option"
  r_score :: "int option"

record schedule_row =
  sc_id :: int
  sc_conference_id :: "int option"
  sc_title :: "string option"
  sc_start_time :: "string option"
  sc_end_time :: "string option"
  sc_room :: "string option"

record documents_row =
  d_id :: int
  d_user_id :: "int option"
  d_title :: "string option"
  d_file_path :: "string option"
  d_status :: "string option"
  d_type :: string
  d_accepted :: int

record db =
  users :: "users_row list"
  conferences :: "conferences_row list"
  submissions :: "submissions_row list"
  reviews :: "reviews_row list"
  schedule :: "schedule_row list"
  documents :: "documents_row list"

text \<open>\<open>SELECT *\<close> on each table whose rows are sent to a client.\<close>

definition users_star :: "users_row \<Rightarrow> obj" where
  "users_star r =
     [(''id'', JNum (u_id r)), (''email'', jstr (u_email r)), (''password'', JStr (u_password r)),
      (''name'', jstr (u_name r)), (''role'', JStr (u_role r)),
      (''affiliation'', jstr (u_affiliation r)), (''bio'', jstr (u_bio r)),
      (''profile_picture'', jstr (u_profile_picture r))]"

definition submissions_star :: "submissions_row \<Rightarrow> obj" where
  "submissions_star s =
     [(''id'', JNum (s_id s)), (''conference_id'', jnum (s_conference_id s)),
      (''user_id'', jnum (s_user_id s)), (''title'', jstr (s_title s)),
      (''abstract'', jstr (s_abstract s)), (''file_path'', jstr (s_file_path s)),
      (''status'', jstr (s_status s))]"

definition reviews_star :: "reviews_row \<Rightarrow> obj" where
  "reviews_star r =
     [(''id'', JNum (r_id r)), (''submission_id'', jnum (r_submission_id r)),
      (''reviewer_id'', jnum (r_reviewer_id r)), (''comments'', jstr (r_comments r)),
      (''score'', jnum (r_score r))]"

definition documents_star :: "documents_row \<Rightarrow> obj" where
  "documents_star d =
     [(''id'', JNum (d_id d)), (''user_id'', jnum (d_user_id d)), (''title'', jstr (d_title d)),
      (''file_path'', jstr (d_file_path d)), (''status'', jstr (d_status d)),
      (''type'', JStr (d_type d)), (''accepted'', JNum (d_accepted d))]"

text \<open>\<open>SELECT id, email, name, role, affiliation, bio, profile_picture FROM users\<close>.\<close>

definition users_public :: "users_row \<Rightarrow> obj" where
  "users_public r =
     select [''id'', ''email'', ''name'', ''role'', ''affiliation'', ''bio'', ''profile_picture'']
       (users_star r)"

section \<open>Credentials, responses and middleware\<close>

text \<open>The payload that \<open>jwt.sign\<close> packs and \<open>jwt.verify\<close> returns as \<open>req.user\<close>.\<close>

record claims =
  claim_id :: int
  claim_email :: "string field"
  claim_role :: string
  claim_name :: "string field"

text \<open>The Authorization header: no token, one that fails verification, or a payload.\<close>

datatype auth = NoToken | BadToken | Token claims

datatype response =
    Row "obj option"
  | Rows "obj list"
  | Auth claims obj
  | Created int
  | Success
  | Failure nat string
  | Uncaught

text \<open>
  \<open>Row\<close> and \<open>Rows\<close> are \<open>res.json\<close> of one row or of an array, \<open>Auth\<close> is
  \<open>{ token, user }\<close>, \<open>Created\<close> is \<open>{ id }\<close>, \<open>Success\<close> is \<open>{ success: true }\<close>,
  \<open>Failure n msg\<close> is \<open>res.status(n).json({ error: msg })\<close>, and \<open>Uncaught\<close> is an
  exception leaving the handler (Express answers 500; the failed statement wrote nothing).
\<close>

definition authenticate :: "auth \<Rightarrow> (claims \<Rightarrow> db \<Rightarrow> response \<times> db) \<Rightarrow> db \<Rightarrow> response \<times> db" where
  "authenticate a continue d =
     (case a of
        NoToken \<Rightarrow> (Failure 401 ''Unauthorized'', d)
      | BadToken \<Rightarrow> (Failure 401 ''Invalid token'', d)
      | Token u \<Rightarrow> continue u d)"

definition isAdmin :: "claims \<Rightarrow> (db \<Rightarrow> response \<times> db) \<Rightarrow> db \<Rightarrow> response \<times> db" where
  "isAdmin u continue d =
     (if claim_role u \<noteq> ''admin'' then (Failure 403 ''Forbidden'', d) else continue d)"

section \<open>Route handlers\<close>

subsection \<open>Accounts\<close>

text \<open>\<open>GET /api/auth/me\<close>: \<open>.get\<close> returns the first matching row or \<open>undefined\<close>.\<close>

definition getMe :: "claims \<Rightarrow> db \<Rightarrow> response \<times> db" where
  "getMe u d = (Row (map_option users_public (find (\<lambda>r. u_id r = claim_id u) (users d))), d)"

text \<open>\<open>PATCH /api/profile\<close>: \<open>file\<close> is \<open>req.file.filename\<close> when a picture was uploaded.\<close>

definition patchProfile ::
  "env \<Rightarrow> claims \<Rightarrow> string field \<Rightarrow> string field \<Rightarrow> string field \<Rightarrow> string option \<Rightarrow> db
     \<Rightarrow> response \<times> db" where
  "patchProfile e u name affiliation bio file d =
     (case bindv e name of None \<Rightarrow> (Uncaught, d) | Some n \<Rightarrow>
      (case bindv e affiliation of None \<Rightarrow> (Uncaught, d) | Some a \<Rightarrow>
      (case bindv e bio of None \<Rightarrow> (Uncaught, d) | Some b \<Rightarrow>
        (let d' = d\<lparr>users := map (\<lambda>r.
                     if u_id r = claim_id u
                     then (case file of
                             Some p \<Rightarrow> r\<lparr>u_name := n, u_affiliation := a, u_bio := b,
                                         u_profile_picture := Some p\<rparr>
                           | None \<Rightarrow> r\<lparr>u_name := n, u_affiliation := a, u_bio := b\<rparr>)
                     else r) (users d)\<rparr>
         in (Row (map_option users_public (find (\<lambda>r. u_id r = claim_id u) (users d'))), d')))))"

definition getUsers :: "db \<Rightarrow> response \<times> db" where
  "getUsers d = (Rows (map users_public (users d)), d)"

text \<open>
  \<open>POST /api/auth/register\<close>: \<open>bcrypt.hashSync\<close> runs before the \<open>try\<close> and throws on a
  password that is not a string; inside the \<open>try\<close> every exception of the insert (a
  parameter that cannot be bound, the \<open>UNIQUE\<close> email) becomes the 400 answer. The new
  row takes the schema's default role.
\<close>

definition register ::
  "env \<Rightarrow> string field \<Rightarrow> string field \<Rightarrow> string field \<Rightarrow> db \<Rightarrow> response \<times> db" where
  "register e email password name d =
     (case password of
        Given p \<Rightarrow>
          (let hashedPassword = hashSync e p in
           case bindv e email of None \<Rightarrow> (Failure 400 ''Email already exists'', d) | Some em \<Rightarrow>
           (case bindv e name of None \<Rightarrow> (Failure 400 ''Email already exists'', d) | Some n \<Rightarrow>
             (if find (\<lambda>r. sql_eq (u_email r) em) (users d) \<noteq> None
              then (Failure 400 ''Email already exists'', d)
              else
                (let i = next_id (map u_id (users d)) in
                 (Auth \<lparr>claim_id = i, claim_email = email, claim_role = ''user'', claim_name = name\<rparr>
                    ([(''id'', JNum i)] @ jfield ''email'' email @ jfield ''name'' name
                       @ [(''role'', JStr ''user'')]),
                  d\<lparr>users := users d @
                     [\<lparr>u_id = i, u_email = em, u_password = hashedPassword, u_name = n,
                       u_role = ''user'', u_affiliation = None, u_bio = None,
                       u_profile_picture = None\<rparr>]\<rparr>)))))
      | _ \<Rightarrow> (Uncaught, d))"

text \<open>
  \<open>POST /api/auth/login\<close>: \<open>SELECT * FROM users WHERE email = ?\<close>, then
  \<open>bcrypt.compareSync\<close>, which throws on a password that is not a string. The user object
  of the answer is built from four properties of the row.
\<close>

definition login :: "env \<Rightarrow> string field \<Rightarrow> string field \<Rightarrow> db \<Rightarrow> response \<times> db" where
  "login e email password d =
     (case bindv e email of None \<Rightarrow> (Uncaught, d) | Some em \<Rightarrow>
      (case find (\<lambda>r. sql_eq (u_email r) em) (users d) of
         None \<Rightarrow> (Failure 401 ''Invalid credentials'', d)
       | Some user \<Rightarrow>
          (case password of
             Given p \<Rightarrow>
               (if \<not> compareSync e p (u_password user)
                then (Failure 401 ''Invalid credentials'', d)
                else
                  (Auth \<lparr>claim_id = u_id user, claim_email = column (u_email user),
                         claim_role = u_role user, claim_name = column (u_name user)\<rparr>
                     [(''id'', JNum (u_id user)), (''email'', jstr (u_email user)),
                      (''name'', jstr (u_name user)), (''role'', JStr (u_role user))],
                   d))
           | _ \<Rightarrow> (Uncaught, d))))"

subsection \<open>Conferences and schedule\<close>

definition postConference ::
  "env \<Rightarrow> string field \<Rightarrow> string field \<Rightarrow> string field \<Rightarrow> string field \<Rightarrow> db \<Rightarrow> response \<times> db" where
  "postConference e title description date location d =
     (case bindv e title of None \<Rightarrow> (Uncaught, d) | Some t \<Rightarrow>
      (case bindv e description of None \<Rightarrow> (Uncaught, d) | Some ds \<Rightarrow>
      (case bindv e date of None \<Rightarrow> (Uncaught, d) | Some dt \<Rightarrow>
      (case bindv e location of None \<Rightarrow> (Uncaught, d) | Some l \<Rightarrow>
        (let i = next_id (map c_id (conferences d)) in
         (Created i,
          d\<lparr>conferences := conferences d @
             [\<lparr>c_id = i, c_title = t, c_description = ds, c_date = dt, c_location = l,
               c_status = Some ''upcoming''\<rparr>]\<rparr>))))))"

definition postSchedule ::
  "env \<Rightarrow> int field \<Rightarrow> string field \<Rightarrow> string field \<Rightarrow> string field \<Rightarrow> string field \<Rightarrow> db
     \<Rightarrow> response \<times> db" where
  "postSchedule e conference_id title start_time end_time room d =
     (case bindv e conference_id of None \<Rightarrow> (Uncaught, d) | Some c \<Rightarrow>
      (case bindv e title of None \<Rightarrow> (Uncaught, d) | Some t \<Rightarrow>
      (case bindv e start_time of None \<Rightarrow> (Uncaught, d) | Some st \<Rightarrow>
      (case bindv e end_time of None \<Rightarrow> (Uncaught, d) | Some et \<Rightarrow>
      (case bindv e room of None \<Rightarrow> (Uncaught, d) | Some rm \<Rightarrow>
        (if references e (map c_id (conferences d)) c
         then (Success,
               d\<lparr>schedule := schedule d @
                  [\<lparr>sc_id = next_id (map sc_id (schedule d)), sc_conference_id = c, sc_title = t,
                    sc_start_time = st, sc_end_time = et, sc_room = rm\<rparr>]\<rparr>)
         else (Uncaught, d)))))))"

subsection \<open>Submissions and reviews\<close>

text \<open>
  \<open>GROUP_CONCAT(u2.name, ', ')\<close> over the reviews of one submission joined with their
  reviewers: NULL names are skipped, and no name at all gives NULL.
\<close>

fun intercalate :: "string \<Rightarrow> string list \<Rightarrow> string" where
  "intercalate sep [] = []"
| "intercalate sep [x] = x"
| "intercalate sep (x # y # ys) = x @ sep @ intercalate sep (y # ys)"

definition reviewers_of :: "db \<Rightarrow> int \<Rightarrow> jsval" where
  "reviewers_of d sid =
     (let names = concat (map (\<lambda>r. concat (map (\<lambda>u2.
                     if sql_eq (r_reviewer_id r) (Some (u_id u2)) \<and> sql_eq (r_submission_id r) (Some sid)
                     then (case u_name u2 of None \<Rightarrow> [] | Some n \<Rightarrow> [n]) else []) (users d))) (reviews d))
      in if names = [] then JNull else JStr (intercalate '', '' names))"

text \<open>
  \<open>GET /api/submissions\<close>: for an admin every submission joined with its author and its
  conference; for anyone else the caller's submissions joined with their conference.
\<close>

definition listSubmissions :: "claims \<Rightarrow> db \<Rightarrow> response \<times> db" where
  "listSubmissions u d =
     (if claim_role u = ''admin''
      then (Rows (concat (map (\<lambda>s. concat (map (\<lambda>a. concat (map (\<lambda>c.
                    if sql_eq (s_user_id s) (Some (u_id a)) \<and> sql_eq (s_conference_id s) (Some (c_id c))
                    then [submissions_star s @
                            [(''author_name'', jstr (u_name a)), (''conference_title'', jstr (c_title c)),
                             (''reviewers'', reviewers_of d (s_id s))]]
                    else []) (conferences d))) (users d))) (submissions d))), d)
      else (Rows (concat (map (\<lambda>s. concat (map (\<lambda>c.
                    if sql_eq (s_conference_id s) (Some (c_id c)) \<and> sql_eq (s_user_id s) (Some (claim_id u))
                    then [submissions_star s @ [(''conference_title'', jstr (c_title c))]]
                    else []) (conferences d))) (submissions d))), d))"

text \<open>
  \<open>POST /api/submissions/:id/assign\<close>: the handler looks for a row of the pair first and
  answers 400 when there is one; otherwise it inserts the pair, leaving comments and score
  to their NULL default.
\<close>

definition assignReviewer :: "env \<Rightarrow> int \<Rightarrow> int field \<Rightarrow> db \<Rightarrow> response \<times> db" where
  "assignReviewer e submission_id reviewer_id d =
     (case bindv e reviewer_id of None \<Rightarrow> (Uncaught, d) | Some rv \<Rightarrow>
      (case find (\<lambda>r. sql_eq (r_submission_id r) (Some submission_id) \<and> sql_eq (r_reviewer_id r) rv)
              (reviews d) of
         Some existing \<Rightarrow> (Failure 400 ''Reviewer already assigned'', d)
       | None \<Rightarrow>
          (if references e (map s_id (submissions d)) (Some submission_id)
               \<and> references e (map u_id (users d)) rv
           then (Success,
                 d\<lparr>reviews := reviews d @
                    [\<lparr>r_id = next_id (map r_id (reviews d)), r_submission_id = Some submission_id,
                      r_reviewer_id = rv, r_comments = None, r_score = None\<rparr>]\<rparr>)
           else (Uncaught, d))))"

text \<open>\<open>POST /api/submissions\<close>: the status column takes its default, \<open>'pending'\<close>.\<close>

definition createSubmission ::
  "env \<Rightarrow> claims \<Rightarrow> int field \<Rightarrow> string field \<Rightarrow> string field \<Rightarrow> string option \<Rightarrow> db
     \<Rightarrow> response \<times> db" where
  "createSubmission e u conference_id title abstract file_path d =
     (case bindv e conference_id of None \<Rightarrow> (Uncaught, d) | Some c \<Rightarrow>
      (case bindv e title of None \<Rightarrow> (Uncaught, d) | Some t \<Rightarrow>
      (case bindv e abstract of None \<Rightarrow> (Uncaught, d) | Some a \<Rightarrow>
        (if references e (map c_id (conferences d)) c
              \<and> references e (map u_id (users d)) (Some (claim_id u))
         then
           (let i = next_id (map s_id (submissions d)) in
            (Created i,
             d\<lparr>submissions := submissions d @
                [\<lparr>s_id = i, s_conference_id = c, s_user_id = Some (claim_id u), s_title = t,
                  s_abstract = a, s_file_path = file_path, s_status = Some ''pending''\<rparr>]\<rparr>))
         else (Uncaught, d)))))"

text \<open>\<open>PATCH /api/submissions/:id/status\<close>: one \<open>UPDATE\<close>, then \<open>{ success: true }\<close>.\<close>

definition setStatus :: "env \<Rightarrow> int \<Rightarrow> string field \<Rightarrow> db \<Rightarrow> response \<times> db" where
  "setStatus e submission_id status d =
     (case bindv e status of None \<Rightarrow> (Uncaught, d) | Some v \<Rightarrow>
        (Success,
         d\<lparr>submissions := map (\<lambda>s. if s_id s = submission_id then s\<lparr>s_status := v\<rparr> else s)
                              (submissions d)\<rparr>))"

definition getReviews :: "int \<Rightarrow> db \<Rightarrow> response \<times> db" where
  "getReviews submission_id d =
     (Rows (concat (map (\<lambda>r. concat (map (\<lambda>a.
               if sql_eq (r_reviewer_id r) (Some (u_id a)) \<and> sql_eq (r_submission_id r) (Some submission_id)
               then [reviews_star r @ [(''reviewer_name'', jstr (u_name a))]]
               else []) (users d))) (reviews d))), d)"

text \<open>\<open>POST /api/reviews\<close>: an insert with the caller as reviewer, and no lookup before it.\<close>

definition postReview ::
  "env \<Rightarrow> claims \<Rightarrow> int field \<Rightarrow> string field \<Rightarrow> int field \<Rightarrow> db \<Rightarrow> response \<times> db" where
  "postReview e u submission_id comments score d =
     (case bindv e submission_id of None \<Rightarrow> (Uncaught, d) | Some sb \<Rightarrow>
      (case bindv e comments of None \<Rightarrow> (Uncaught, d) | Some cm \<Rightarrow>
      (case bindv e score of None \<Rightarrow> (Uncaught, d) | Some sc \<Rightarrow>
        (if references e (map s_id (submissions d)) sb
              \<and> references e (map u_id (users d)) (Some (claim_id u))
         then (Success,
               d\<lparr>reviews := reviews d @
                  [\<lparr>r_id = next_id (map r_id (reviews d)), r_submission_id = sb,
                    r_reviewer_id = Some (claim_id u), r_comments = cm, r_score = sc\<rparr>]\<rparr>)
         else (Uncaught, d)))))"

subsection \<open>Documents\<close>

definition listDocuments :: "claims \<Rightarrow> db \<Rightarrow> response \<times> db" where
  "listDocuments u d =
     (if claim_role u = ''admin''
      then (Rows (concat (map (\<lambda>dc. concat (map (\<lambda>a.
                    if sql_eq (d_user_id dc) (Some (u_id a))
                    then [documents_star dc @ [(''user_name'', jstr (u_name a))]]
                    else []) (users d))) (documents d))), d)
      else (Rows (map documents_star
                    (filter (\<lambda>dc. sql_eq (d_user_id dc) (Some (claim_id u))) (documents d))), d))"

text \<open>
  \<open>POST /api/documents\<close>: owner and type are chosen by the caller's role alone; status
  and accepted take the schema's defaults.
\<close>

definition uploadDocument ::
  "env \<Rightarrow> claims \<Rightarrow> string field \<Rightarrow> string option \<Rightarrow> int field \<Rightarrow> db \<Rightarrow> response \<times> db" where
  "uploadDocument e u title file_path user_id d =
     (let targetUserId = (if claim_role u = ''admin'' then user_id else Given (claim_id u));
          docType = (if claim_role u = ''admin'' then ''admin_upload'' else ''user_upload'')
      in
      (case bindv e targetUserId of None \<Rightarrow> (Uncaught, d) | Some owner \<Rightarrow>
      (case bindv e title of None \<Rightarrow> (Uncaught, d) | Some t \<Rightarrow>
        (if references e (map u_id (users d)) owner
         then
           (let i = next_id (map d_id (documents d)) in
            (Created i,
             d\<lparr>documents := documents d @
                [\<lparr>d_id = i, d_user_id = owner, d_title = t, d_file_path = file_path,
                  d_status = Some ''pending'', d_type = docType, d_accepted = 0\<rparr>]\<rparr>))
         else (Uncaught, d)))))"

definition verify :: "env \<Rightarrow> int \<Rightarrow> string field \<Rightarrow> db \<Rightarrow> response \<times> db" where
  "verify e document_id status d =
     (case bindv e status of None \<Rightarrow> (Uncaught, d) | Some v \<Rightarrow>
        (Success,
         d\<lparr>documents := map (\<lambda>dc. if d_id dc = document_id then dc\<lparr>d_status := v\<rparr> else dc)
                            (documents d)\<rparr>))"

text \<open>\<open>UPDATE documents SET accepted = 1 WHERE id = ? AND user_id = ?\<close>, then success.\<close>

definition accept :: "claims \<Rightarrow> int \<Rightarrow> db \<Rightarrow> response \<times> db" where
  "accept u document_id d =
     (Success,
      d\<lparr>documents := map (\<lambda>dc. if d_id dc = document_id \<and> sql_eq (d_user_id dc) (Some (claim_id u))
                               then dc\<lparr>d_accepted := 1\<rparr> else dc)
                         (documents d)\<rparr>)"

section \<open>The server\<close>

datatype request =
    GetMe auth
  | PatchProfile auth "string field" "string field" "string field" "string option"
  | GetUsers auth
  | Register "string field" "string field" "string field"
  | Login "string field" "string field"
  | PostConference auth "string field" "string field" "string field" "string field"
  | GetSubmissions auth
  | PostAssign auth int "int field"
  | PostSubmission auth "int field" "string field" "string field" "string option"
  | PatchStatus auth int "string field"
  | GetReviews auth int
  | PostReview auth "int field" "string field" "int field"
  | PostSchedule auth "int field" "string field" "string field" "string field" "string field"
  | GetDocuments auth
  | PostDocument auth "string field" "string option" "int field"
  | PatchVerify auth int "string field"
  | PatchAccept auth int

text \<open>
  Each route with its middleware chain. The two public listings of reference data
  (\<open>GET /api/conferences\<close> and \<open>GET /api/conferences/:id/schedule\<close>) read one table and
  write nothing; they are left out.
\<close>

fun handle :: "env \<Rightarrow> request \<Rightarrow> db \<Rightarrow> response \<times> db" where
  "handle e (GetMe a) d = authenticate a getMe d"
| "handle e (PatchProfile a name affiliation bio file) d =
     authenticate a (\<lambda>u. patchProfile e u name affiliation bio file) d"
| "handle e (GetUsers a) d = authenticate a (\<lambda>u. isAdmin u getUsers) d"
| "handle e (Register email password name) d = register e email password name d"
| "handle e (Login email password) d = login e email password d"
| "handle e (PostConference a title description date location) d =
     authenticate a (\<lambda>u. isAdmin u (postConference e title description date location)) d"
| "handle e (GetSubmissions a) d = authenticate a listSubmissions d"
| "handle e (PostAssign a submission_id reviewer_id) d =
     authenticate a (\<lambda>u. isAdmin u (assignReviewer e submission_id reviewer_id)) d"
| "handle e (PostSubmission a conference_id title abstract file) d =
     authenticate a (\<lambda>u. createSubmission e u conference_id title abstract file) d"
| "handle e (PatchStatus a submission_id status) d =
     authenticate a (\<lambda>u. isAdmin u (setStatus e submission_id status)) d"
| "handle e (GetReviews a submission_id) d = authenticate a (\<lambda>u. getReviews submission_id) d"
| "handle e (PostReview a submission_id comments score) d =
     authenticate a (\<lambda>u. isAdmin u (postReview e u submission_id comments score)) d"
| "handle e (PostSchedule a conference_id title start_time end_time room) d =
     authenticate a (\<lambda>u. isAdmin u (postSchedule e conference_id title start_time end_time room)) d"
| "handle e (GetDocuments a) d = authenticate a listDocuments d"
| "handle e (PostDocument a title file user_id) d =
     authenticate a (\<lambda>u. uploadDocument e u title file user_id) d"
| "handle e (PatchVerify a document_id status) d =
     authenticate a (\<lambda>u. isAdmin u (verify e document_id status)) d"
| "handle e (PatchAccept a document_id) d = authenticate a (\<lambda>u. accept u document_id) d"

text \<open>A sequence of requests, each served on the database the one before left.\<close>

fun serve :: "env \<Rightarrow> request list \<Rightarrow> db \<Rightarrow> db" where
  "serve e [] d = d"
| "serve e (q # qs) d = serve e qs (snd (handle e q d))"

section \<open>The database at start-up and sample callers\<close>

text \<open>
  The tables after the start-up code has run on a new database file: no admin exists, so
  the four accounts, the two conferences and the two schedule entries are inserted. On a
  later start the admin exists and nothing is inserted.
\<close>

definition seeded :: "env \<Rightarrow> db" where
  "seeded e =
     \<lparr>users =
        [\<lparr>u_id = 1, u_email = Some ''admin@confmaster.com'', u_password = hashSync e ''admin123'',
          u_name = Some ''System Admin'', u_role = ''admin'', u_affiliation = None, u_bio = None,
          u_profile_picture = None\<rparr>,
         \<lparr>u_id = 2, u_email = Some ''user@example.com'', u_password = hashSync e ''user123'',
          u_name = Some ''John Doe'', u_role = ''user'', u_affiliation = Some ''Stanford University'',
          u_bio = Some ''PhD student focusing on Natural Language Processing and Large Language Models.'',
          u_profile_picture = None\<rparr>,
         \<lparr>u_id = 3, u_email = Some ''researcher@uni.edu'', u_password = hashSync e ''user123'',
          u_name = Some ''Dr. Sarah Smith'', u_role = ''user'', u_affiliation = Some ''MIT Media Lab'',
          u_bio = Some ''Senior researcher in Human-Computer Interaction and ubiquitous computing.'',
          u_profile_picture = None\<rparr>,
         \<lparr>u_id = 4, u_email = Some ''reviewer@science.org'', u_password = hashSync e ''user123'',
          u_name = Some ''Prof. Alan Turing'', u_role = ''admin'',
          u_affiliation = Some ''University of Cambridge'',
          u_bio = Some ''Expert in computational theory and artificial intelligence.'',
          u_profile_picture = None\<rparr>],
      conferences =
        [\<lparr>c_id = 1, c_title = Some ''International AI Conference 2026'',
          c_description = Some ''A premier conference on Artificial Intelligence and Machine Learning.'',
          c_date = Some ''2026-06-15'', c_location = Some ''San Francisco, CA'',
          c_status = Some ''upcoming''\<rparr>,
         \<lparr>c_id = 2, c_title = Some ''Global Sustainability Summit'',
          c_description = Some ''Focusing on renewable energy and green technologies.'',
          c_date = Some ''2026-09-20'', c_location = Some ''Berlin, Germany'',
          c_status = Some ''upcoming''\<rparr>],
      submissions = [],
      reviews = [],
      schedule =
        [\<lparr>sc_id = 1, sc_conference_id = Some 1, sc_title = Some ''Opening Keynote: The Future of AGI'',
          sc_start_time = Some ''09:00'', sc_end_time = Some ''10:30'', sc_room = Some ''Grand Ballroom''\<rparr>,
         \<lparr>sc_id = 2, sc_conference_id = Some 1, sc_title = Some ''Neural Architecture Search Workshop'',
          sc_start_time = Some ''11:00'', sc_end_time = Some ''12:30'', sc_room = Some ''Room 302''\<rparr>],
      documents = []\<rparr>"

text \<open>
  An environment for running examples: the two driver settings are arguments, and a
  prefix stands in for the bcryptjs pair.
\<close>

definition sample_env :: "bool \<Rightarrow> bool \<Rightarrow> env" where
  "sample_env un fk =
     \<lparr>undefined_as_null = un, foreign_keys = fk,
      hashSync = (\<lambda>p. ''$2a$10$'' @ p),
      compareSync = (\<lambda>p h. h = ''$2a$10$'' @ p)\<rparr>"

text \<open>The payloads that \<open>login\<close> signs for the first three seeded accounts.\<close>

definition admin :: claims where
  "admin = \<lparr>claim_id = 1, claim_email = Given ''admin@confmaster.com'', claim_role = ''admin'',
            claim_name = Given ''System Admin''\<rparr>"

definition john :: claims where
  "john = \<lparr>claim_id = 2, claim_email = Given ''user@example.com'', claim_role = ''user'',
           claim_name = Given ''John Doe''\<rparr>"

definition sarah :: claims where
  "sarah = \<lparr>claim_id = 3, claim_email = Given ''researcher@uni.edu'', claim_role = ''user'',
            claim_name = Given ''Dr. Sarah Smith''\<rparr>"

text \<open>
  A short history used by the examples: two users submit a paper each, the admin issues a
  certificate to the first user, and the second user uploads a document of their own.
\<close>

definition history :: "request list" where
  "history =
     [PostSubmission (Token john) (Given 1) (Given ''Paper A'') (Given ''On A'') (Some ''1-a.pdf''),
      PostSubmission (Token sarah) (Given 2) (Given ''Paper B'') (Given ''On B'') None,
      PostDocument (Token admin) (Given ''Certificate'') (Some ''2-cert.pdf'') (Given 2),
      PostDocument (Token sarah) (Given ''Passport'') (Some ''3-id.pdf'') Absent]"

definition busy :: "env \<Rightarrow> db" where
  "busy e = serve e history (seeded e)"

section \<open>Observations on responses and tables\<close>

text \<open>Every JSON object a response carries: the rows sent, or the user object of a login.\<close>

fun sent_objects :: "response \<Rightarrow> obj list" where
  "sent_objects (Row None) = []"
| "sent_objects (Row (Some r)) = [r]"
| "sent_objects (Rows rs) = rs"
| "sent_objects (Auth token user) = [user]"
| "sent_objects (Created i) = []"
| "sent_objects Success = []"
| "sent_objects (Failure n msg) = []"
| "sent_objects Uncaught = []"

text \<open>
  A later documents table keeps an earlier one: every old row is still at its place with
  its id and owner, and a row that was accepted is still accepted.
\<close>

definition documents_kept :: "documents_row list \<Rightarrow> documents_row list \<Rightarrow> bool" where
  "documents_kept old new =
     (length old \<le> length new \<and>
      list_all2 (\<lambda>a b. d_id b = d_id a \<and> d_user_id b = d_user_id a \<and> (d_accepted a = 1 \<longrightarrow> d_accepted b = 1))
        old (take (length old) new))"

text \<open>The review rows of one (submission, reviewer) pair.\<close>

definition reviews_of_pair :: "int \<Rightarrow> int \<Rightarrow> db \<Rightarrow> reviews_row list" where
  "reviews_of_pair sid rid d =
     filter (\<lambda>r. r_submission_id r = Some sid \<and> r_reviewer_id r = Some rid) (reviews d)"

section \<open>Ownership-scoped listings\<close>

lemma sql_eq_Some: "sql_eq a (Some x) = (a = Some x)"
  by (cases a) (simp_all add: sql_eq_def)

lemma listDocuments_non_admin:
  assumes "claim_role u \<noteq> ''admin''"
  shows "listDocuments u d =
           (Rows (map documents_star
                    (filter (\<lambda>dc. d_user_id dc = Some (claim_id u)) (documents d))), d)"
  using assms by (simp add: listDocuments_def sql_eq_Some)

lemma listSubmissions_non_admin:
  assumes "claim_role u \<noteq> ''admin''"
  shows "listSubmissions u d =
           (Rows (concat (map (\<lambda>s. concat (map (\<lambda>c.
                    if s_conference_id s = Some (c_id c) \<and> s_user_id s = Some (claim_id u)
                    then [submissions_star s @ [(''conference_title'', jstr (c_title c))]]
                    else []) (conferences d))) (submissions d))), d)"
  using assms by (simp add: listSubmissions_def sql_eq_Some)

lemma submissions_star_user_id: "map_of (submissions_star s @ extra) ''user_id'' = Some (jnum (s_user_id s))"
  by (simp add: submissions_star_def)

lemma documents_star_user_id: "map_of (documents_star dc) ''user_id'' = Some (jnum (d_user_id dc))"
  by (simp add: documents_star_def)

lemma in_join:
  "r \<in> set (concat (map (\<lambda>s. concat (map (\<lambda>c. if P s c then [f s c] else []) cs)) ss))
     \<longleftrightarrow> (\<exists>s\<in>set ss. \<exists>c\<in>set cs. P s c \<and> r = f s c)"
  by (auto split: if_splits)

text \<open>
  C1. For a caller whose role is not admin, \<open>GET /api/submissions\<close> and
  \<open>GET /api/documents\<close> answer with an array of rows (never an error) and leave the
  database as it is. Every row of either array carries the caller's id in its
  \<open>user_id\<close> column. The rows are rows of the stored tables: each submission row sent is
  the \<open>SELECT\<close> of a stored submission whose \<open>user_id\<close> is the caller's id, joined with
  the title of its stored conference, and every such stored pair is sent; the document
  rows sent are the \<open>SELECT\<close> of exactly the stored documents whose \<open>user_id\<close> is the
  caller's id, in table order.
\<close>

theorem list_scoped_to_owner:
  assumes "claim_role u \<noteq> ''admin''"
  shows "\<exists>rs ds. handle e (GetSubmissions (Token u)) d = (Rows rs, d)
           \<and> (\<forall>r\<in>set rs. map_of r ''user_id'' = Some (JNum (claim_id u)))
           \<and> (\<forall>r\<in>set rs. \<exists>s\<in>set (submissions d). \<exists>c\<in>set (conferences d).
                  s_user_id s = Some (claim_id u) \<and> s_conference_id s = Some (c_id c)
                  \<and> r = submissions_star s @ [(''conference_title'', jstr (c_title c))])
           \<and> (\<forall>s\<in>set (submissions d). \<forall>c\<in>set (conferences d).
                  s_user_id s = Some (claim_id u) \<and> s_conference_id s = Some (c_id c) \<longrightarrow>
                  submissions_star s @ [(''conference_title'', jstr (c_title c))] \<in> set rs)
           \<and> handle e (GetDocuments (Token u)) d = (Rows ds, d)
           \<and> (\<forall>r\<in>set ds. map_of r ''user_id'' = Some (JNum (claim_id u)))
           \<and> ds = map documents_star
                    (filter (\<lambda>dc. d_user_id dc = Some (claim_id u)) (documents d))"
proof -
  define P where "P = (\<lambda>(s::submissions_row) (c::conferences_row).
                    s_conference_id s = Some (c_id c) \<and> s_user_id s = Some (claim_id u))"
  define f where "f = (\<lambda>(s::submissions_row) (c::conferences_row).
                    submissions_star s @ [(''conference_title'', jstr (c_title c))])"
  define rs where "rs = concat (map (\<lambda>s. concat (map (\<lambda>c. if P s c then [f s c] else [])
                    (conferences d))) (submissions d))"
  define ds where "ds = map documents_star
                    (filter (\<lambda>dc. d_user_id dc = Some (claim_id u)) (documents d))"
  have member: "r \<in> set rs \<longleftrightarrow> (\<exists>s\<in>set (submissions d). \<exists>c\<in>set (conferences d). P s c \<and> r = f s c)"
    for r unfolding rs_def by (rule in_join)
  have subs: "handle e (GetSubmissions (Token u)) d = (Rows rs, d)"
    unfolding rs_def P_def f_def
    using listSubmissions_non_admin [OF assms, of d] by (simp add: authenticate_def)
  have docs: "handle e (GetDocuments (Token u)) d = (Rows ds, d)"
    using listDocuments_non_admin [OF assms, of d] by (simp add: authenticate_def ds_def)
  have stored: "\<forall>r\<in>set rs. \<exists>s\<in>set (submissions d). \<exists>c\<in>set (conferences d).
                  s_user_id s = Some (claim_id u) \<and> s_conference_id s = Some (c_id c)
                  \<and> r = submissions_star s @ [(''conference_title'', jstr (c_title c))]"
  proof
    fix r
    assume "r \<in> set rs"
    then obtain s c where "s \<in> set (submissions d)" "c \<in> set (conferences d)" "P s c" "r = f s c"
      unfolding member by blast
    then show "\<exists>s\<in>set (submissions d). \<exists>c\<in>set (conferences d).
                  s_user_id s = Some (claim_id u) \<and> s_conference_id s = Some (c_id c)
                  \<and> r = submissions_star s @ [(''conference_title'', jstr (c_title c))]"
      unfolding P_def f_def by blast
  qed
  have all_sent: "\<forall>s\<in>set (submissions d). \<forall>c\<in>set (conferences d).
                  s_user_id s = Some (claim_id u) \<and> s_conference_id s = Some (c_id c) \<longrightarrow>
                  submissions_star s @ [(''conference_title'', jstr (c_title c))] \<in> set rs"
  proof (intro ballI impI)
    fix s c
    assume "s \<in> set (submissions d)" "c \<in> set (conferences d)"
      and "s_user_id s = Some (claim_id u) \<and> s_conference_id s = Some (c_id c)"
    then have "\<exists>s'\<in>set (submissions d). \<exists>c'\<in>set (conferences d). P s' c' \<and> f s c = f s' c'"
      unfolding P_def by blast
    then have "f s c \<in> set rs"
      unfolding member .
    then show "submissions_star s @ [(''conference_title'', jstr (c_title c))] \<in> set rs"
      unfolding f_def .
  qed
  have sub_ids: "\<forall>r\<in>set rs. map_of r ''user_id'' = Some (JNum (claim_id u))"
  proof
    fix r
    assume "r \<in> set rs"
    then obtain s c where "P s c" "r = f s c"
      unfolding member by blast
    then have "s_user_id s = Some (claim_id u)"
      and "r = submissions_star s @ [(''conference_title'', jstr (c_title c))]"
      unfolding P_def f_def by simp_all
    then show "map_of r ''user_id'' = Some (JNum (claim_id u))"
      by (simp only: submissions_star_user_id) (simp add: jnum_def)
  qed
  have doc_ids: "\<forall>r\<in>set ds. map_of r ''user_id'' = Some (JNum (claim_id u))"
  proof
    fix r
    assume "r \<in> set ds"
    then have "r \<in> documents_star ` {dc \<in> set (documents d). d_user_id dc = Some (claim_id u)}"
      unfolding ds_def by simp
    then obtain dc where "d_user_id dc = Some (claim_id u)" and "r = documents_star dc"
      by blast
    then show "map_of r ''user_id'' = Some (JNum (claim_id u))"
      by (simp only: documents_star_user_id) (simp add: jnum_def)
  qed
  have body: "handle e (GetSubmissions (Token u)) d = (Rows rs, d)
           \<and> (\<forall>r\<in>set rs. map_of r ''user_id'' = Some (JNum (claim_id u)))
           \<and> (\<forall>r\<in>set rs. \<exists>s\<in>set (submissions d). \<exists>c\<in>set (conferences d).
                  s_user_id s = Some (claim_id u) \<and> s_conference_id s = Some (c_id c)
                  \<and> r = submissions_star s @ [(''conference_title'', jstr (c_title c))])
           \<and> (\<forall>s\<in>set (submissions d). \<forall>c\<in>set (conferences d).
                  s_user_id s = Some (claim_id u) \<and> s_conference_id s = Some (c_id c) \<longrightarrow>
                  submissions_star s @ [(''conference_title'', jstr (c_title c))] \<in> set rs)
           \<and> handle e (GetDocuments (Token u)) d = (Rows ds, d)
           \<and> (\<forall>r\<in>set ds. map_of r ''user_id'' = Some (JNum (claim_id u)))
           \<and> ds = map documents_star
                    (filter (\<lambda>dc. d_user_id dc = Some (claim_id u)) (documents d))"
    using subs sub_ids stored all_sent docs doc_ids ds_def by (intro conjI)
  show ?thesis
    by (rule exI [of _ rs], rule exI [of _ ds], rule body)
qed

theorem list_scoped_to_owner_witness:
  "claim_role john \<noteq> ''admin''
   \<and> map s_user_id (submissions (busy (sample_env False True))) = [Some 2, Some 3]
   \<and> map d_user_id (documents (busy (sample_env False True))) = [Some 2, Some 3]
   \<and> map (\<lambda>r. (map_of r ''id'', map_of r ''user_id''))
        (sent_objects (fst (handle (sample_env False True) (GetSubmissions (Token john))
           (busy (sample_env False True)))))
      = [(Some (JNum 1), Some (JNum 2))]
   \<and> map (\<lambda>r. (map_of r ''id'', map_of r ''user_id''))
        (sent_objects (fst (handle (sample_env False True) (GetDocuments (Token john))
           (busy (sample_env False True)))))
      = [(Some (JNum 1), Some (JNum 2))]
   \<and> sent_objects (fst (handle (sample_env False True) (GetDocuments (Token john))
           (busy (sample_env False True))))
      = map documents_star
          (filter (\<lambda>dc. d_user_id dc = Some (claim_id john)) (documents (busy (sample_env False True))))
   \<and> length (filter (\<lambda>dc. d_user_id dc = Some (claim_id john))
        (documents (busy (sample_env False True)))) = 1"
proof -
  define e where "e = sample_env False True"
  define d where "d = busy e"
  have role: "claim_role john \<noteq> ''admin''"
    by (simp add: john_def)
  have subs_table: "map s_user_id (submissions d) = [Some 2, Some 3]"
    unfolding d_def e_def by code_simp
  have docs_table: "map d_user_id (documents d) = [Some 2, Some 3]"
    unfolding d_def e_def by code_simp
  have subs:
    "map (\<lambda>r. (map_of r ''id'', map_of r ''user_id''))
        (sent_objects (fst (handle e (GetSubmissions (Token john)) d)))
      = [(Some (JNum 1), Some (JNum 2))]"
    unfolding d_def e_def by code_simp
  have docs:
    "map (\<lambda>r. (map_of r ''id'', map_of r ''user_id''))
        (sent_objects (fst (handle e (GetDocuments (Token john)) d)))
      = [(Some (JNum 1), Some (JNum 2))]"
    unfolding d_def e_def by code_simp
  have own: "length (filter (\<lambda>dc. d_user_id dc = Some (claim_id john)) (documents d)) = 1"
    unfolding d_def e_def by code_simp
  from list_scoped_to_owner [OF role, of e d]
  obtain ds where sent: "handle e (GetDocuments (Token john)) d = (Rows ds, d)"
    and rows: "ds = map documents_star
                 (filter (\<lambda>dc. d_user_id dc = Some (claim_id john)) (documents d))"
    by (elim exE conjE)
  from sent have "sent_objects (fst (handle e (GetDocuments (Token john)) d)) = ds"
    by (simp only: fst_conv sent_objects.simps)
  with rows have stored:
    "sent_objects (fst (handle e (GetDocuments (Token john)) d))
       = map documents_star
           (filter (\<lambda>dc. d_user_id dc = Some (claim_id john)) (documents d))"
    by (simp only:)
  show ?thesis
    using role subs_table docs_table subs docs stored own unfolding d_def e_def by (intro conjI)
qed

section \<open>Acceptance of documents\<close>

text \<open>Handlers that leave the documents table alone.\<close>

lemma documents_getMe: "documents (snd (getMe u d)) = documents d"
  by (simp add: getMe_def)

lemma documents_patchProfile: "documents (snd (patchProfile e u n a b f d)) = documents d"
  by (simp add: patchProfile_def Let_def split: option.splits)

lemma documents_getUsers: "documents (snd (getUsers d)) = documents d"
  by (simp add: getUsers_def)

lemma documents_register: "documents (snd (register e em p n d)) = documents d"
  by (simp add: register_def Let_def split: option.splits field.splits)

lemma documents_login: "documents (snd (login e em p d)) = documents d"
  by (simp add: login_def split: option.splits field.splits)

lemma documents_postConference: "documents (snd (postConference e t ds dt l d)) = documents d"
  by (simp add: postConference_def Let_def split: option.splits)

lemma documents_postSchedule: "documents (snd (postSchedule e c t st et rm d)) = documents d"
  by (simp add: postSchedule_def split: option.splits)

lemma documents_listSubmissions: "documents (snd (listSubmissions u d)) = documents d"
  by (simp add: listSubmissions_def)

lemma documents_assignReviewer: "documents (snd (assignReviewer e s r d)) = documents d"
  by (simp add: assignReviewer_def split: option.splits)

lemma documents_createSubmission: "documents (snd (createSubmission e u c t a f d)) = documents d"
  by (simp add: createSubmission_def Let_def split: option.splits)

lemma documents_setStatus: "documents (snd (setStatus e s v d)) = documents d"
  by (simp add: setStatus_def split: option.splits)

lemma documents_getReviews: "documents (snd (getReviews s d)) = documents d"
  by (simp add: getReviews_def)

lemma documents_postReview: "documents (snd (postReview e u s c sc d)) = documents d"
  by (simp add: postReview_def split: option.splits)

lemma documents_listDocuments: "documents (snd (listDocuments u d)) = documents d"
  by (simp add: listDocuments_def)

lemmas documents_frame = documents_getMe documents_patchProfile documents_getUsers documents_register
  documents_login documents_postConference documents_postSchedule documents_listSubmissions
  documents_assignReviewer documents_createSubmission documents_setStatus documents_getReviews
  documents_postReview documents_listDocuments

lemma snd_authenticate:
  "snd (authenticate a k d) = (case a of Token u \<Rightarrow> snd (k u d) | _ \<Rightarrow> d)"
  by (simp add: authenticate_def split: auth.splits)

lemma snd_isAdmin:
  "snd (isAdmin u k d) = (if claim_role u \<noteq> ''admin'' then d else snd (k d))"
  by (simp add: isAdmin_def)

lemma documents_kept_refl: "documents_kept xs xs"
  by (simp add: documents_kept_def list_all2_same list_all2_conv_all_nth)

lemma documents_kept_snoc: "documents_kept xs (xs @ [x])"
  by (simp add: documents_kept_def list_all2_conv_all_nth)

lemma documents_kept_uploadDocument: "documents_kept (documents d) (documents (snd (uploadDocument e u t f i d)))"
  by (simp add: uploadDocument_def Let_def documents_kept_refl documents_kept_snoc split: option.splits)

lemma documents_kept_verify: "documents_kept (documents d) (documents (snd (verify e i v d)))"
  by (simp add: verify_def documents_kept_def list_all2_conv_all_nth split: option.splits)

lemma documents_kept_accept: "documents_kept (documents d) (documents (snd (accept u i d)))"
  by (simp add: accept_def documents_kept_def list_all2_conv_all_nth)

lemma documents_kept_handle: "documents_kept (documents d) (documents (snd (handle e q d)))"
  by (cases q)
     (simp_all add: snd_authenticate snd_isAdmin documents_frame documents_kept_refl documents_kept_uploadDocument
        documents_kept_verify documents_kept_accept split: auth.splits)

lemma documents_kept_trans: "documents_kept xs ys \<Longrightarrow> documents_kept ys zs \<Longrightarrow> documents_kept xs zs"
  by (auto simp: documents_kept_def list_all2_conv_all_nth)

lemma documents_kept_serve: "documents_kept (documents d) (documents (serve e qs d))"
proof (induction qs arbitrary: d)
  case Nil
  show ?case by (simp add: documents_kept_refl)
next
  case (Cons q qs)
  show ?case using documents_kept_trans [OF documents_kept_handle Cons.IH] by simp
qed

lemma accept_twice_same: "snd (accept u i (snd (accept u i d))) = snd (accept u i d)"
  by (simp add: accept_def comp_def)

lemma accept_marks_owned:
  assumes "dc \<in> set (documents (snd (accept u i d)))" "d_id dc = i" "d_user_id dc = Some (claim_id u)"
  shows "d_accepted dc = 1"
proof -
  define f where "f = (\<lambda>x::documents_row. if d_id x = i \<and> sql_eq (d_user_id x) (Some (claim_id u))
                            then x\<lparr>d_accepted := 1\<rparr> else x)"
  from assms(1) have "dc \<in> f ` set (documents d)"
    by (simp add: accept_def f_def)
  then obtain x where x: "dc = f x"
    by blast
  show ?thesis
  proof (cases "d_id x = i \<and> sql_eq (d_user_id x) (Some (claim_id u))")
    case True
    with x show ?thesis by (simp add: f_def)
  next
    case False
    with x have "dc = x" by (simp add: f_def)
    with False assms(2,3) show ?thesis by (simp add: sql_eq_def)
  qed
qed

text \<open>
  C8. Accepting a document twice: both calls answer success, the second leaves the
  database as the first left it, and every document with that id owned by the caller has
  \<open>accepted = 1\<close>. And along any sequence of requests a document row that has
  \<open>accepted = 1\<close> stays at its place, with its id, and keeps \<open>accepted = 1\<close>.
\<close>

theorem accept_one_way:
  "(\<exists>d1. handle e (PatchAccept (Token u) i) d = (Success, d1)
        \<and> handle e (PatchAccept (Token u) i) d1 = (Success, d1)
        \<and> (\<forall>dc\<in>set (documents d1).
              d_id dc = i \<and> d_user_id dc = Some (claim_id u) \<longrightarrow> d_accepted dc = 1))
   \<and> (\<forall>k<length (documents d). d_accepted (documents d ! k) = 1 \<longrightarrow>
        k < length (documents (serve e qs d))
        \<and> d_id (documents (serve e qs d) ! k) = d_id (documents d ! k)
        \<and> d_accepted (documents (serve e qs d) ! k) = 1)"
proof (intro conjI allI impI)
  let ?d1 = "snd (accept u i d)"
  have first: "handle e (PatchAccept (Token u) i) d = (Success, ?d1)"
    by (simp add: authenticate_def accept_def)
  have "handle e (PatchAccept (Token u) i) ?d1 = (Success, snd (accept u i ?d1))"
    by (simp add: authenticate_def accept_def)
  then have second: "handle e (PatchAccept (Token u) i) ?d1 = (Success, ?d1)"
    by (simp only: accept_twice_same)
  have marked: "\<forall>dc\<in>set (documents ?d1).
      d_id dc = i \<and> d_user_id dc = Some (claim_id u) \<longrightarrow> d_accepted dc = 1"
    using accept_marks_owned by blast
  show "\<exists>d1. handle e (PatchAccept (Token u) i) d = (Success, d1)
        \<and> handle e (PatchAccept (Token u) i) d1 = (Success, d1)
        \<and> (\<forall>dc\<in>set (documents d1).
              d_id dc = i \<and> d_user_id dc = Some (claim_id u) \<longrightarrow> d_accepted dc = 1)"
    using first second marked by blast
next
  fix k
  assume k: "k < length (documents d)" and acc: "d_accepted (documents d ! k) = 1"
  have kept: "documents_kept (documents d) (documents (serve e qs d))"
    by (rule documents_kept_serve)
  then show "k < length (documents (serve e qs d))"
    using k by (simp add: documents_kept_def)
  from kept k acc show "d_id (documents (serve e qs d) ! k) = d_id (documents d ! k)"
    by (simp add: documents_kept_def list_all2_conv_all_nth)
  from kept k acc show "d_accepted (documents (serve e qs d) ! k) = 1"
    by (simp add: documents_kept_def list_all2_conv_all_nth)
qed

theorem accept_one_way_witness:
  "map d_accepted (documents (busy (sample_env False True))) = [0, 0]
   \<and> map d_accepted (documents (serve (sample_env False True)
        [PatchAccept (Token john) 1] (busy (sample_env False True)))) = [1, 0]
   \<and> fst (handle (sample_env False True) (PatchAccept (Token john) 1)
        (serve (sample_env False True) [PatchAccept (Token john) 1] (busy (sample_env False True))))
      = Success
   \<and> map d_accepted (documents (serve (sample_env False True)
        [PatchAccept (Token john) 1, PatchAccept (Token john) 1] (busy (sample_env False True))))
      = [1, 0]
   \<and> map d_accepted (documents (serve (sample_env False True)
        [PatchVerify (Token admin) 1 (Given ''rejected''),
         PostDocument (Token admin) (Given ''Report'') None (Given 2),
         PatchAccept (Token sarah) 1]
        (serve (sample_env False True) [PatchAccept (Token john) 1] (busy (sample_env False True)))))
      = [1, 0, 0]"
proof -
  define e where "e = sample_env False True"
  define qs where "qs = [PatchVerify (Token admin) 1 (Given ''rejected''),
                         PostDocument (Token admin) (Given ''Report'') None (Given 2),
                         PatchAccept (Token sarah) 1]"
  define d1 where "d1 = serve e [PatchAccept (Token john) 1] (busy e)"
  define ds where "ds = documents (serve e qs d1)"
  have before: "map d_accepted (documents (busy e)) = [0, 0]"
    unfolding e_def by code_simp
  have once: "map d_accepted (documents d1) = [1, 0]"
    unfolding d1_def e_def by code_simp
  have again: "fst (handle e (PatchAccept (Token john) 1) d1) = Success"
    unfolding d1_def e_def by code_simp
  have twice: "map d_accepted (documents (serve e
        [PatchAccept (Token john) 1, PatchAccept (Token john) 1] (busy e))) = [1, 0]"
    unfolding e_def by code_simp
  have len: "length ds = 3"
    unfolding ds_def d1_def qs_def e_def by code_simp
  have rest: "map d_accepted (tl ds) = [0, 0]"
    unfolding ds_def d1_def qs_def e_def by code_simp
  have hyp: "0 < length (documents d1) \<and> d_accepted (documents d1 ! 0) = 1"
    unfolding d1_def e_def by code_simp
  have "\<forall>k<length (documents d1). d_accepted (documents d1 ! k) = 1 \<longrightarrow>
          k < length ds \<and> d_id (ds ! k) = d_id (documents d1 ! k) \<and> d_accepted (ds ! k) = 1"
    unfolding ds_def using accept_one_way [of e john 1 d1 qs] by (rule conjunct2)
  with hyp have "d_accepted (ds ! 0) = 1"
    by blast
  with len rest have after: "map d_accepted ds = [1, 0, 0]"
    by (cases ds) auto
  show ?thesis
    using before once again twice after
    unfolding ds_def d1_def qs_def e_def
    by (intro conjI)
qed

section \<open>Password hashes stay in the database\<close>



























section \<open>Accepting another user's document\<close>

text \<open>
  C4 as the code has it. A caller who does not own the document at place \<open>k\<close> and
  sends \<open>accept\<close> for its id gets the success answer (the handler never looks at the
  number of rows changed, so neither NotFound nor Forbidden is sent), and the row at
  place \<open>k\<close> is unchanged.
\<close>

theorem accept_by_non_owner:
  assumes "k < length (documents d)"
    and "d_user_id (documents d ! k) \<noteq> Some (claim_id c)"
  shows "fst (handle e (PatchAccept (Token c) (d_id (documents d ! k))) d) = Success
     \<and> length (documents (snd (handle e (PatchAccept (Token c) (d_id (documents d ! k))) d)))
         = length (documents d)
     \<and> documents (snd (handle e (PatchAccept (Token c) (d_id (documents d ! k))) d)) ! k
         = documents d ! k"
proof -
  from assms(2) have "\<not> sql_eq (d_user_id (documents d ! k)) (Some (claim_id c))"
    by (auto simp: sql_eq_def split: option.splits)
  with assms(1) show ?thesis
    by (simp add: authenticate_def accept_def)
qed

theorem accept_by_non_owner_witness:
  "0 < length (documents (busy (sample_env False True)))
   \<and> d_user_id (documents (busy (sample_env False True)) ! 0) \<noteq> Some (claim_id sarah)
   \<and> d_accepted (documents (busy (sample_env False True)) ! 0) = 0
   \<and> fst (handle (sample_env False True)
        (PatchAccept (Token sarah) (d_id (documents (busy (sample_env False True)) ! 0)))
        (busy (sample_env False True))) = Success
   \<and> d_accepted (documents (snd (handle (sample_env False True)
        (PatchAccept (Token sarah) (d_id (documents (busy (sample_env False True)) ! 0)))
        (busy (sample_env False True)))) ! 0) = 0"
proof -
  define e where "e = sample_env False True"
  define d where "d = busy e"
  have len: "0 < length (documents d)"
    unfolding d_def e_def by code_simp
  have other: "d_user_id (documents d ! 0) \<noteq> Some (claim_id sarah)"
    unfolding d_def e_def by code_simp
  have before: "d_accepted (documents d ! 0) = 0"
    unfolding d_def e_def by code_simp
  note result = accept_by_non_owner [OF len other, of e]
  from result have answer:
    "fst (handle e (PatchAccept (Token sarah) (d_id (documents d ! 0))) d) = Success"
    by (rule conjunct1)
  from result have
    "documents (snd (handle e (PatchAccept (Token sarah) (d_id (documents d ! 0))) d)) ! 0
       = documents d ! 0"
    by (elim conjE)
  with before have after:
    "d_accepted (documents (snd (handle e (PatchAccept (Token sarah) (d_id (documents d ! 0))) d)) ! 0) = 0"
    by (simp only:)
  show ?thesis
    using len other before answer after unfolding d_def e_def by (intro conjI)
qed

text \<open>
  The claim as stated fails: the second seeded user sends \<open>accept\<close> for document 1,
  which the first user owns, and the answer is success, not an error.
\<close>

theorem accept_by_non_owner_counterexample:
  "d_id (documents (busy (sample_env False True)) ! 0) = 1
   \<and> d_user_id (documents (busy (sample_env False True)) ! 0) = Some 2
   \<and> claim_id sarah = 3
   \<and> fst (handle (sample_env False True) (PatchAccept (Token sarah) 1)
        (busy (sample_env False True))) = Success"
  by code_simp

section \<open>Writing a submission's status\<close>

text \<open>
  C5 as the code has it. For an admin caller, any submission id and any status value,
  inside or outside the four listed ones, the status route answers success, every
  submission with that id then has the given value as its status, and every other
  submission keeps its status.
\<close>

theorem set_status_any_value:
  assumes "claim_role u = ''admin''"
  shows "fst (handle e (PatchStatus (Token u) sid (Given v)) d) = Success
     \<and> map s_id (submissions (snd (handle e (PatchStatus (Token u) sid (Given v)) d)))
         = map s_id (submissions d)
     \<and> map s_status (submissions (snd (handle e (PatchStatus (Token u) sid (Given v)) d)))
         = map (\<lambda>s. if s_id s = sid then Some v else s_status s) (submissions d)"
  using assms
  by (simp add: authenticate_def isAdmin_def setStatus_def bindv_def comp_def if_distrib cong: if_cong)

theorem set_status_any_value_witness:
  "claim_role admin = ''admin''
   \<and> map s_status (submissions (busy (sample_env False True))) = [Some ''pending'', Some ''pending'']
   \<and> fst (handle (sample_env False True) (PatchStatus (Token admin) 2 (Given ''under_review''))
        (busy (sample_env False True))) = Success
   \<and> map s_status (submissions (snd (handle (sample_env False True)
        (PatchStatus (Token admin) 2 (Given ''under_review'')) (busy (sample_env False True)))))
       = [Some ''pending'', Some ''under_review'']"
proof -
  define e where "e = sample_env False True"
  define d where "d = busy e"
  have role: "claim_role admin = ''admin''"
    by (simp add: admin_def)
  have before: "map s_status (submissions d) = [Some ''pending'', Some ''pending'']"
    unfolding d_def e_def by code_simp
  have ids: "map s_id (submissions d) = [1, 2]"
    unfolding d_def e_def by code_simp
  note result = set_status_any_value [OF role, of e 2 "''under_review''" d]
  from result have answer:
    "fst (handle e (PatchStatus (Token admin) 2 (Given ''under_review'')) d) = Success"
    by (rule conjunct1)
  from result have
    "map s_status (submissions (snd (handle e (PatchStatus (Token admin) 2 (Given ''under_review'')) d)))
       = map (\<lambda>s. if s_id s = 2 then Some ''under_review'' else s_status s) (submissions d)"
    by (elim conjE)
  also have "\<dots> = [Some ''pending'', Some ''under_review'']"
    unfolding d_def e_def by code_simp
  finally have after:
    "map s_status (submissions (snd (handle e (PatchStatus (Token admin) 2 (Given ''under_review'')) d)))
       = [Some ''pending'', Some ''under_review'']" .
  show ?thesis
    using role before answer after unfolding d_def e_def by (intro conjI)
qed

text \<open>
  The claim as stated fails: an admin writes \<open>bogus\<close>, which is none of the four
  values; the answer is success and the value is stored.
\<close>

theorem set_status_rejects_counterexample:
  "''bogus'' \<notin> set [''pending'', ''under_review'', ''accepted'', ''rejected'']
   \<and> claim_role admin = ''admin''
   \<and> map s_status (submissions (busy (sample_env False True))) = [Some ''pending'', Some ''pending'']
   \<and> fst (handle (sample_env False True) (PatchStatus (Token admin) 1 (Given ''bogus''))
        (busy (sample_env False True))) = Success
   \<and> map s_status (submissions (snd (handle (sample_env False True)
        (PatchStatus (Token admin) 1 (Given ''bogus'')) (busy (sample_env False True)))))
       = [Some ''bogus'', Some ''pending'']"
  by code_simp

section \<open>Verifying a document\<close>




section \<open>Uploading a document\<close>

text \<open>
  C7 as the code has it. When \<open>POST /api/documents\<close> creates a document, exactly one
  row is appended; it has the returned id, status \<open>pending\<close> and accepted 0. For an
  admin caller its type is \<open>admin_upload\<close>, and its owner is the target user when one is
  given; for any other caller its type is \<open>user_upload\<close> and its owner is the caller,
  whatever target the body names.
\<close>

theorem upload_owner_and_type:
  assumes "handle e (PostDocument (Token u) title file target) d = (Created n, d')"
  shows "documents d' = documents d @ [last (documents d')]
     \<and> d_id (last (documents d')) = n
     \<and> d_status (last (documents d')) = Some ''pending''
     \<and> d_accepted (last (documents d')) = 0
     \<and> (claim_role u = ''admin'' \<longrightarrow>
          d_type (last (documents d')) = ''admin_upload''
          \<and> (\<forall>t. target = Given t \<longrightarrow> d_user_id (last (documents d')) = Some t))
     \<and> (claim_role u \<noteq> ''admin'' \<longrightarrow>
          d_type (last (documents d')) = ''user_upload''
          \<and> d_user_id (last (documents d')) = Some (claim_id u))"
proof (cases "claim_role u = ''admin''")
  case True
  with assms show ?thesis
    by (auto simp: authenticate_def uploadDocument_def Let_def bindv_def
        split: option.splits if_splits field.splits)
next
  case False
  with assms show ?thesis
    by (auto simp: authenticate_def uploadDocument_def Let_def bindv_def
        split: option.splits if_splits)
qed

theorem upload_owner_and_type_witness:
  "claim_role sarah \<noteq> ''admin''
   \<and> fst (handle (sample_env False True)
        (PostDocument (Token sarah) (Given ''Diploma'') (Some ''5-d.pdf'') (Given 2))
        (busy (sample_env False True))) = Created 3
   \<and> d_user_id (last (documents (snd (handle (sample_env False True)
        (PostDocument (Token sarah) (Given ''Diploma'') (Some ''5-d.pdf'') (Given 2))
        (busy (sample_env False True)))))) = Some (claim_id sarah)
   \<and> d_type (last (documents (snd (handle (sample_env False True)
        (PostDocument (Token sarah) (Given ''Diploma'') (Some ''5-d.pdf'') (Given 2))
        (busy (sample_env False True)))))) = ''user_upload''
   \<and> d_accepted (last (documents (snd (handle (sample_env False True)
        (PostDocument (Token sarah) (Given ''Diploma'') (Some ''5-d.pdf'') (Given 2))
        (busy (sample_env False True)))))) = 0
   \<and> claim_role admin = ''admin''
   \<and> fst (handle (sample_env False True)
        (PostDocument (Token admin) (Given ''Report'') (Some ''6-r.pdf'') (Given 3))
        (busy (sample_env False True))) = Created 3
   \<and> d_user_id (last (documents (snd (handle (sample_env False True)
        (PostDocument (Token admin) (Given ''Report'') (Some ''6-r.pdf'') (Given 3))
        (busy (sample_env False True)))))) = Some 3
   \<and> d_type (last (documents (snd (handle (sample_env False True)
        (PostDocument (Token admin) (Given ''Report'') (Some ''6-r.pdf'') (Given 3))
        (busy (sample_env False True)))))) = ''admin_upload''"
proof -
  define e where "e = sample_env False True"
  define d where "d = busy e"
  define q1 where "q1 = PostDocument (Token sarah) (Given ''Diploma'') (Some ''5-d.pdf'') (Given 2)"
  define q2 where "q2 = PostDocument (Token admin) (Given ''Report'') (Some ''6-r.pdf'') (Given 3)"
  have user: "claim_role sarah \<noteq> ''admin''"
    by (simp add: sarah_def)
  have role: "claim_role admin = ''admin''"
    by (simp add: admin_def)
  have made1: "fst (handle e q1 d) = Created 3"
    unfolding q1_def d_def e_def by code_simp
  have made2: "fst (handle e q2 d) = Created 3"
    unfolding q2_def d_def e_def by code_simp
  from made1 have "handle e (PostDocument (Token sarah) (Given ''Diploma'') (Some ''5-d.pdf'') (Given 2)) d
                     = (Created 3, snd (handle e q1 d))"
    unfolding q1_def by (simp add: prod_eq_iff)
  note r1 = upload_owner_and_type [OF this]
  from made2 have "handle e (PostDocument (Token admin) (Given ''Report'') (Some ''6-r.pdf'') (Given 3)) d
                     = (Created 3, snd (handle e q2 d))"
    unfolding q2_def by (simp add: prod_eq_iff)
  note r2 = upload_owner_and_type [OF this]
  from r1 user have own1: "d_user_id (last (documents (snd (handle e q1 d)))) = Some (claim_id sarah)"
    and type1: "d_type (last (documents (snd (handle e q1 d)))) = ''user_upload''"
    and acc1: "d_accepted (last (documents (snd (handle e q1 d)))) = 0"
    by blast+
  from r2 role have own2: "d_user_id (last (documents (snd (handle e q2 d)))) = Some 3"
    and type2: "d_type (last (documents (snd (handle e q2 d)))) = ''admin_upload''"
    by blast+
  show ?thesis
    using user made1 own1 type1 acc1 role made2 own2 type2
    unfolding q1_def q2_def d_def e_def by (intro conjI)
qed

text \<open>
  The claim as stated fails for an admin who names no target user: the owner is taken
  from the missing field and the type is still \<open>admin_upload\<close>. With a driver that
  refuses \<open>undefined\<close> the insert throws and no document is created; with a driver that
  binds it as NULL the new document has no owner. In neither case is there a new
  \<open>user_upload\<close> document owned by the caller.
\<close>

theorem upload_without_target_counterexample:
  "claim_role admin = ''admin'' \<and> claim_id admin = 1
   \<and> fst (handle (sample_env False True)
        (PostDocument (Token admin) (Given ''Notice'') (Some ''4-n.pdf'') Absent)
        (busy (sample_env False True))) = Uncaught
   \<and> map (\<lambda>r. (d_user_id r, d_type r)) (documents (snd (handle (sample_env False True)
        (PostDocument (Token admin) (Given ''Notice'') (Some ''4-n.pdf'') Absent)
        (busy (sample_env False True)))))
       = [(Some 2, ''admin_upload''), (Some 3, ''user_upload'')]
   \<and> fst (handle (sample_env True True)
        (PostDocument (Token admin) (Given ''Notice'') (Some ''4-n.pdf'') Absent)
        (busy (sample_env True True))) = Created 3
   \<and> map (\<lambda>r. (d_user_id r, d_type r)) (documents (snd (handle (sample_env True True)
        (PostDocument (Token admin) (Given ''Notice'') (Some ''4-n.pdf'') Absent)
        (busy (sample_env True True)))))
       = [(Some 2, ''admin_upload''), (Some 3, ''user_upload''), (None, ''admin_upload'')]"
  by code_simp

section \<open>The status of a submission over time\<close>

text \<open>Handlers that leave the submissions table alone.\<close>

lemma submissions_getMe: "submissions (snd (getMe u d)) = submissions d"
  by (simp add: getMe_def)

lemma submissions_patchProfile: "submissions (snd (patchProfile e u n a b f d)) = submissions d"
  by (simp add: patchProfile_def Let_def split: option.splits)

lemma submissions_getUsers: "submissions (snd (getUsers d)) = submissions d"
  by (simp add: getUsers_def)

lemma submissions_register: "submissions (snd (register e em p n d)) = submissions d"
  by (simp add: register_def Let_def split: option.splits field.splits)

lemma submissions_login: "submissions (snd (login e em p d)) = submissions d"
  by (simp add: login_def split: option.splits field.splits)

lemma submissions_postConference: "submissions (snd (postConference e t ds dt l d)) = submissions d"
  by (simp add: postConference_def Let_def split: option.splits)

lemma submissions_postSchedule: "submissions (snd (postSchedule e c t st et rm d)) = submissions d"
  by (simp add: postSchedule_def split: option.splits)

lemma submissions_listSubmissions: "submissions (snd (listSubmissions u d)) = submissions d"
  by (simp add: listSubmissions_def)

lemma submissions_assignReviewer: "submissions (snd (assignReviewer e s r d)) = submissions d"
  by (simp add: assignReviewer_def split: option.splits)

lemma submissions_getReviews: "submissions (snd (getReviews s d)) = submissions d"
  by (simp add: getReviews_def)

lemma submissions_postReview: "submissions (snd (postReview e u s c sc d)) = submissions d"
  by (simp add: postReview_def split: option.splits)

lemma submissions_listDocuments: "submissions (snd (listDocuments u d)) = submissions d"
  by (simp add: listDocuments_def)

lemma submissions_uploadDocument: "submissions (snd (uploadDocument e u t f i d)) = submissions d"
  by (simp add: uploadDocument_def Let_def split: option.splits)

lemma submissions_verify: "submissions (snd (verify e i v d)) = submissions d"
  by (simp add: verify_def split: option.splits)

lemma submissions_accept: "submissions (snd (accept u i d)) = submissions d"
  by (simp add: accept_def)

lemmas submissions_frame = submissions_getMe submissions_patchProfile submissions_getUsers
  submissions_register submissions_login submissions_postConference submissions_postSchedule
  submissions_listSubmissions submissions_assignReviewer submissions_getReviews
  submissions_postReview submissions_listDocuments submissions_uploadDocument submissions_verify
  submissions_accept

lemma submissions_createSubmission:
  "\<exists>new. submissions (snd (createSubmission e u c t a f d)) = submissions d @ new
         \<and> list_all (\<lambda>s. s_status s = Some ''pending'') new"
  by (simp add: createSubmission_def Let_def split: option.splits)

lemma submissions_other_routes:
  assumes "\<forall>a sid st. q \<noteq> PatchStatus a sid st"
  shows "\<exists>new. submissions (snd (handle e q d)) = submissions d @ new
           \<and> list_all (\<lambda>s. s_status s = Some ''pending'') new"
proof (cases q)
  case (PostSubmission a c t ab f)
  then show ?thesis
    using submissions_createSubmission by (cases a) (simp_all add: authenticate_def)
next
  case (PatchStatus a sid st)
  with assms show ?thesis by blast
qed (simp_all add: snd_authenticate snd_isAdmin submissions_frame split: auth.splits)

text \<open>
  C9 as the code has it. A request on any route but the status route leaves every
  existing submission row as it was and can only append rows whose status is
  \<open>pending\<close>. A request on the status route that carries no token, a token that fails
  verification, or the token of a caller who is not an admin is refused (401, 401, 403)
  and leaves the whole database as it was. The status route itself follows no order: for
  an admin it writes the given value, \<open>pending\<close> included, to the submissions with that
  id whatever their status was.
\<close>

theorem status_written_by_admin_only:
  "((\<forall>a sid st. q \<noteq> PatchStatus a sid st) \<longrightarrow>
      (\<exists>new. submissions (snd (handle e q d)) = submissions d @ new
             \<and> list_all (\<lambda>s. s_status s = Some ''pending'') new))
   \<and> (claim_role u = ''admin'' \<longrightarrow>
        map s_status (submissions (snd (handle e (PatchStatus (Token u) sid (Given v)) d)))
          = map (\<lambda>s. if s_id s = sid then Some v else s_status s) (submissions d))
   \<and> (claim_role w \<noteq> ''admin'' \<longrightarrow>
        handle e (PatchStatus (Token w) sid st) d = (Failure 403 ''Forbidden'', d))
   \<and> handle e (PatchStatus NoToken sid st) d = (Failure 401 ''Unauthorized'', d)
   \<and> handle e (PatchStatus BadToken sid st) d = (Failure 401 ''Invalid token'', d)"
proof (intro conjI impI)
  assume "\<forall>a sid st. q \<noteq> PatchStatus a sid st"
  then show "\<exists>new. submissions (snd (handle e q d)) = submissions d @ new
             \<and> list_all (\<lambda>s. s_status s = Some ''pending'') new"
    by (rule submissions_other_routes)
next
  assume "claim_role u = ''admin''"
  then show "map s_status (submissions (snd (handle e (PatchStatus (Token u) sid (Given v)) d)))
          = map (\<lambda>s. if s_id s = sid then Some v else s_status s) (submissions d)"
    by (simp add: authenticate_def isAdmin_def setStatus_def bindv_def comp_def if_distrib
        cong: if_cong)
next
  assume "claim_role w \<noteq> ''admin''"
  then show "handle e (PatchStatus (Token w) sid st) d = (Failure 403 ''Forbidden'', d)"
    by (simp add: authenticate_def isAdmin_def)
next
  show "handle e (PatchStatus NoToken sid st) d = (Failure 401 ''Unauthorized'', d)"
    by (simp add: authenticate_def)
next
  show "handle e (PatchStatus BadToken sid st) d = (Failure 401 ''Invalid token'', d)"
    by (simp add: authenticate_def)
qed

theorem status_written_by_admin_only_witness:
  "map s_status (submissions (busy (sample_env False True))) = [Some ''pending'', Some ''pending'']
   \<and> map s_status (submissions (snd (handle (sample_env False True)
        (PostSubmission (Token john) (Given 2) (Given ''Paper C'') (Given ''On C'') None)
        (busy (sample_env False True)))))
       = [Some ''pending'', Some ''pending'', Some ''pending'']
   \<and> take 2 (submissions (snd (handle (sample_env False True)
        (PostSubmission (Token john) (Given 2) (Given ''Paper C'') (Given ''On C'') None)
        (busy (sample_env False True)))))
       = submissions (busy (sample_env False True))
   \<and> claim_role admin = ''admin''
   \<and> map s_status (submissions (snd (handle (sample_env False True)
        (PatchStatus (Token admin) 1 (Given ''rejected'')) (busy (sample_env False True)))))
       = [Some ''rejected'', Some ''pending'']
   \<and> claim_role john \<noteq> ''admin''
   \<and> handle (sample_env False True) (PatchStatus (Token john) 1 (Given ''accepted''))
        (busy (sample_env False True))
       = (Failure 403 ''Forbidden'', busy (sample_env False True))
   \<and> handle (sample_env False True) (PatchStatus NoToken 1 (Given ''accepted''))
        (busy (sample_env False True))
       = (Failure 401 ''Unauthorized'', busy (sample_env False True))"
proof -
  define e where "e = sample_env False True"
  define d where "d = busy e"
  define q where "q = PostSubmission (Token john) (Given 2) (Given ''Paper C'') (Given ''On C'') None"
  have role: "claim_role admin = ''admin''"
    by (simp add: admin_def)
  have user: "claim_role john \<noteq> ''admin''"
    by (simp add: john_def)
  have before: "map s_status (submissions d) = [Some ''pending'', Some ''pending'']"
    unfolding d_def e_def by code_simp
  have len: "length (submissions d) = 2"
    using before by (metis length_map length_Cons list.size(3) numeral_2_eq_2)
  have grown: "map s_status (submissions (snd (handle e q d)))
                 = [Some ''pending'', Some ''pending'', Some ''pending'']"
    unfolding q_def d_def e_def by code_simp
  have other: "\<forall>a sid st. q \<noteq> PatchStatus a sid st"
    by (simp add: q_def)
  note result = status_written_by_admin_only [where q = q and e = e and d = d and u = admin
      and sid = 1 and v = "''rejected''" and w = john and st = "Given ''accepted''"]
  from result other obtain new where "submissions (snd (handle e q d)) = submissions d @ new"
    by blast
  with len have prefix: "take 2 (submissions (snd (handle e q d))) = submissions d"
    by simp
  from result role have
    "map s_status (submissions (snd (handle e (PatchStatus (Token admin) 1 (Given ''rejected'')) d)))
       = map (\<lambda>s. if s_id s = 1 then Some ''rejected'' else s_status s) (submissions d)"
    by blast
  also have "\<dots> = [Some ''rejected'', Some ''pending'']"
    unfolding d_def e_def by code_simp
  finally have written:
    "map s_status (submissions (snd (handle e (PatchStatus (Token admin) 1 (Given ''rejected'')) d)))
       = [Some ''rejected'', Some ''pending'']" .
  from result user have refused:
    "handle e (PatchStatus (Token john) 1 (Given ''accepted'')) d = (Failure 403 ''Forbidden'', d)"
    by blast
  from result have anonymous:
    "handle e (PatchStatus NoToken 1 (Given ''accepted'')) d = (Failure 401 ''Unauthorized'', d)"
    by blast
  show ?thesis
    using before grown prefix role written user refused anonymous
    unfolding q_def d_def e_def by (intro conjI)
qed

text \<open>
  The claim as stated fails: an admin accepts submission 1 and then sets it to
  \<open>pending\<close> again; both requests succeed and the status is back at \<open>pending\<close>.
\<close>

theorem status_back_to_pending_counterexample:
  "map s_status (submissions (busy (sample_env False True))) = [Some ''pending'', Some ''pending'']
   \<and> map s_status (submissions (serve (sample_env False True)
        [PatchStatus (Token admin) 1 (Given ''accepted'')] (busy (sample_env False True))))
       = [Some ''accepted'', Some ''pending'']
   \<and> fst (handle (sample_env False True) (PatchStatus (Token admin) 1 (Given ''pending''))
        (serve (sample_env False True)
          [PatchStatus (Token admin) 1 (Given ''accepted'')] (busy (sample_env False True))))
       = Success
   \<and> map s_status (submissions (serve (sample_env False True)
        [PatchStatus (Token admin) 1 (Given ''accepted''),
         PatchStatus (Token admin) 1 (Given ''pending'')] (busy (sample_env False True))))
       = [Some ''pending'', Some ''pending'']"
  by code_simp

section \<open>Assigning reviewers\<close>

lemma find_None_filter: "(find P xs = None) = (filter P xs = [])"
  by (induction xs) auto

lemma assignReviewer_existing:
  assumes "reviews_of_pair sid rid d \<noteq> []"
  shows "assignReviewer e sid (Given rid) d = (Failure 400 ''Reviewer already assigned'', d)"
proof -
  from assms have "find (\<lambda>r. r_submission_id r = Some sid \<and> r_reviewer_id r = Some rid) (reviews d) \<noteq> None"
    by (simp add: find_None_filter reviews_of_pair_def)
  then show ?thesis
    by (auto simp: assignReviewer_def bindv_def sql_eq_Some)
qed

lemma assignReviewer_fresh:
  assumes "reviews_of_pair sid rid d = []"
    and "sid \<in> set (map s_id (submissions d))"
    and "rid \<in> set (map u_id (users d))"
  shows "assignReviewer e sid (Given rid) d =
           (Success,
            d\<lparr>reviews := reviews d @
               [\<lparr>r_id = next_id (map r_id (reviews d)), r_submission_id = Some sid,
                 r_reviewer_id = Some rid, r_comments = None, r_score = None\<rparr>]\<rparr>)"
proof -
  from assms(1) have "find (\<lambda>r. r_submission_id r = Some sid \<and> r_reviewer_id r = Some rid) (reviews d) = None"
    by (simp add: find_None_filter reviews_of_pair_def)
  moreover from assms(2,3) have "references e (map s_id (submissions d)) (Some sid)"
      "references e (map u_id (users d)) (Some rid)"
    by (simp_all add: references_def)
  ultimately show ?thesis
    by (simp add: assignReviewer_def bindv_def sql_eq_Some)
qed

text \<open>
  C3 as the code has it. For an existing submission and an existing user, two
  assignments in a row by an admin: the second is answered 400 \<open>Reviewer already
  assigned\<close> and changes nothing. When the pair had no review row before the first call,
  the first call succeeds and exactly one row of the pair persists, with comments and
  score NULL.
\<close>

theorem assign_twice:
  assumes "claim_role u = ''admin''"
    and "sid \<in> set (map s_id (submissions d))"
    and "rid \<in> set (map u_id (users d))"
  shows "\<exists>r1 d1. handle e (PostAssign (Token u) sid (Given rid)) d = (r1, d1)
     \<and> handle e (PostAssign (Token u) sid (Given rid)) d1
         = (Failure 400 ''Reviewer already assigned'', d1)
     \<and> (reviews_of_pair sid rid d = [] \<longrightarrow>
          r1 = Success
          \<and> map (\<lambda>r. (r_comments r, r_score r)) (reviews_of_pair sid rid d1) = [(None, None)])"
proof (cases "reviews_of_pair sid rid d = []")
  case False
  then have "assignReviewer e sid (Given rid) d = (Failure 400 ''Reviewer already assigned'', d)"
    by (rule assignReviewer_existing)
  with assms(1) False show ?thesis
    by (simp add: authenticate_def isAdmin_def)
next
  case True
  define d1 where "d1 = d\<lparr>reviews := reviews d @
               [\<lparr>r_id = next_id (map r_id (reviews d)), r_submission_id = Some sid,
                 r_reviewer_id = Some rid, r_comments = None, r_score = None\<rparr>]\<rparr>"
  from True assms(2,3) have first: "assignReviewer e sid (Given rid) d = (Success, d1)"
    unfolding d1_def by (rule assignReviewer_fresh)
  have pair: "reviews_of_pair sid rid d1 =
               [\<lparr>r_id = next_id (map r_id (reviews d)), r_submission_id = Some sid,
                 r_reviewer_id = Some rid, r_comments = None, r_score = None\<rparr>]"
    using True by (simp add: d1_def reviews_of_pair_def)
  then have "reviews_of_pair sid rid d1 \<noteq> []"
    by simp
  then have second: "assignReviewer e sid (Given rid) d1 = (Failure 400 ''Reviewer already assigned'', d1)"
    by (rule assignReviewer_existing)
  from assms(1) first second pair show ?thesis
    by (simp add: authenticate_def isAdmin_def)
qed

theorem assign_twice_witness:
  "claim_role admin = ''admin''
   \<and> 1 \<in> set (map s_id (submissions (busy (sample_env False True))))
   \<and> 3 \<in> set (map u_id (users (busy (sample_env False True))))
   \<and> reviews_of_pair 1 3 (busy (sample_env False True)) = []
   \<and> fst (handle (sample_env False True) (PostAssign (Token admin) 1 (Given 3))
        (busy (sample_env False True))) = Success
   \<and> fst (handle (sample_env False True) (PostAssign (Token admin) 1 (Given 3))
        (snd (handle (sample_env False True) (PostAssign (Token admin) 1 (Given 3))
           (busy (sample_env False True)))))
       = Failure 400 ''Reviewer already assigned''
   \<and> map (\<lambda>r. (r_comments r, r_score r))
        (reviews_of_pair 1 3 (snd (handle (sample_env False True)
           (PostAssign (Token admin) 1 (Given 3)) (busy (sample_env False True)))))
       = [(None, None)]"
proof -
  define e where "e = sample_env False True"
  define d where "d = busy e"
  have role: "claim_role admin = ''admin''"
    by (simp add: admin_def)
  have sub: "1 \<in> set (map s_id (submissions d))"
    unfolding d_def e_def by code_simp
  have usr: "3 \<in> set (map u_id (users d))"
    unfolding d_def e_def by code_simp
  have fresh: "reviews_of_pair 1 3 d = []"
    unfolding d_def e_def by code_simp
  from assign_twice [OF role sub usr, of e]
  obtain r1 d1 where run: "handle e (PostAssign (Token admin) 1 (Given 3)) d = (r1, d1)"
    and second: "handle e (PostAssign (Token admin) 1 (Given 3)) d1
                   = (Failure 400 ''Reviewer already assigned'', d1)"
    and new: "reviews_of_pair 1 3 d = [] \<longrightarrow>
                r1 = Success
                \<and> map (\<lambda>r. (r_comments r, r_score r)) (reviews_of_pair 1 3 d1) = [(None, None)]"
    by (elim exE conjE)
  from new fresh have r1: "r1 = Success"
    and rows: "map (\<lambda>r. (r_comments r, r_score r)) (reviews_of_pair 1 3 d1) = [(None, None)]"
    by (simp_all only: simp_thms)
  from run r1 have first: "handle e (PostAssign (Token admin) 1 (Given 3)) d = (Success, d1)"
    by (simp only:)
  from first have d1: "d1 = snd (handle e (PostAssign (Token admin) 1 (Given 3)) d)"
    by simp
  from first have a1: "fst (handle e (PostAssign (Token admin) 1 (Given 3)) d) = Success"
    by simp
  from second have a2: "fst (handle e (PostAssign (Token admin) 1 (Given 3))
        (snd (handle e (PostAssign (Token admin) 1 (Given 3)) d)))
       = Failure 400 ''Reviewer already assigned''"
    unfolding d1 by simp
  from rows have a3: "map (\<lambda>r. (r_comments r, r_score r))
        (reviews_of_pair 1 3 (snd (handle e (PostAssign (Token admin) 1 (Given 3)) d)))
       = [(None, None)]"
    unfolding d1 .
  show ?thesis
    using role sub usr fresh a1 a2 a3 unfolding d_def e_def by (intro conjI)
qed

text \<open>
  The claim as stated fails where the pair already has a review: the admin (user 1) has
  posted a review of submission 1, then is assigned to it twice. Both assignments are
  refused, and the one row of the pair carries the comments and the score of the review.
\<close>

theorem assign_twice_counterexample:
  "fst (handle (sample_env False True) (PostReview (Token admin) (Given 1) (Given ''Sound work'') (Given 8))
        (busy (sample_env False True))) = Success
   \<and> fst (handle (sample_env False True) (PostAssign (Token admin) 1 (Given 1))
        (serve (sample_env False True)
          [PostReview (Token admin) (Given 1) (Given ''Sound work'') (Given 8)]
          (busy (sample_env False True))))
       = Failure 400 ''Reviewer already assigned''
   \<and> fst (handle (sample_env False True) (PostAssign (Token admin) 1 (Given 1))
        (serve (sample_env False True)
          [PostReview (Token admin) (Given 1) (Given ''Sound work'') (Given 8),
           PostAssign (Token admin) 1 (Given 1)]
          (busy (sample_env False True))))
       = Failure 400 ''Reviewer already assigned''
   \<and> map (\<lambda>r. (r_comments r, r_score r))
        (reviews_of_pair 1 1 (serve (sample_env False True)
          [PostReview (Token admin) (Given 1) (Given ''Sound work'') (Given 8),
           PostAssign (Token admin) 1 (Given 1),
           PostAssign (Token admin) 1 (Given 1)]
          (busy (sample_env False True))))
       = [(Some ''Sound work'', Some 8)]"
  by code_simp

section \<open>Review rows of one pair\<close>

text \<open>
  C2 on the code. From the start-up database, user 2 submits a paper and the admin
  (user 1) posts two reviews of it: both inserts succeed and the reviews table holds the
  pair (1, 1) twice, with foreign keys enforced or not. The same happens when the admin is
  first assigned to the submission and then posts a review.
\<close>

theorem review_pair_repeated:
  "map (\<lambda>r. (r_submission_id r, r_reviewer_id r))
     (reviews (serve (sample_env False True)
        [PostSubmission (Token john) (Given 1) (Given ''Paper A'') (Given ''On A'') (Some ''1-a.pdf''),
         PostReview (Token admin) (Given 1) (Given ''Sound work'') (Given 8),
         PostReview (Token admin) (Given 1) (Given ''Second thoughts'') (Given 3)]
        (seeded (sample_env False True))))
     = [(Some 1, Some 1), (Some 1, Some 1)]
   \<and> map (\<lambda>r. (r_submission_id r, r_reviewer_id r))
     (reviews (serve (sample_env False False)
        [PostSubmission (Token john) (Given 1) (Given ''Paper A'') (Given ''On A'') (Some ''1-a.pdf''),
         PostReview (Token admin) (Given 1) (Given ''Sound work'') (Given 8),
         PostReview (Token admin) (Given 1) (Given ''Second thoughts'') (Given 3)]
        (seeded (sample_env False False))))
     = [(Some 1, Some 1), (Some 1, Some 1)]
   \<and> map (\<lambda>r. (r_submission_id r, r_reviewer_id r))
     (reviews (serve (sample_env False True)
        [PostSubmission (Token john) (Given 1) (Given ''Paper A'') (Given ''On A'') (Some ''1-a.pdf''),
         PostAssign (Token admin) 1 (Given 1),
         PostReview (Token admin) (Given 1) (Given ''Sound work'') (Given 8)]
        (seeded (sample_env False True))))
     = [(Some 1, Some 1), (Some 1, Some 1)]
   \<and> length (reviews_of_pair 1 1 (serve (sample_env False True)
        [PostSubmission (Token john) (Given 1) (Given ''Paper A'') (Given ''On A'') (Some ''1-a.pdf''),
         PostReview (Token admin) (Given 1) (Given ''Sound work'') (Given 8),
         PostReview (Token admin) (Given 1) (Given ''Second thoughts'') (Given 3)]
        (seeded (sample_env False True)))) = 2"
  by code_simp

end
